theory Spec2Isabelle
  imports Main
begin

section \<open>Exceptions\<close>

text \<open>
  Python exceptions are values. The handler's only \<^verbatim>\<open>except\<close> clause names
  \<^verbatim>\<open>requests.exceptions.HTTPError\<close>, so that class is kept apart from every
  other exception; it carries the status code of the response that caused it.
\<close>

datatype exn =
    HTTPError nat
  | IndexError
  | AttributeError string
  | ValidationError
  | OtherException string

section \<open>Application settings of the API\<close>

text \<open>
  \<^verbatim>\<open>appsettings.py\<close>. The settings class declares twelve required fields and no
  default, so constructing it reads the process environment and raises a validation
  error when a field is missing or ill-typed.
\<close>

record AppConfiguration =
  app_storage_blob_url :: string
  app_storage_queue_url :: string
  app_cosmos_connstr :: string
  app_cosmos_database :: string
  app_cosmos_container_schema :: string
  app_cosmos_container_process :: string
  app_cps_configuration :: string
  app_cps_processes :: string
  app_message_queue_extract :: string
  app_cps_max_filesize_mb :: int
  app_logging_enable :: bool
  app_logging_level :: string

datatype logging_call = BasicConfig int | Disable int

definition CRITICAL :: int where
  "CRITICAL = 50"

text \<open>
  What the function reads from outside the module: \<open>settings k\<close> is what
  \<^verbatim>\<open>AppConfiguration()\<close> yields when it is invoked for the \<open>k\<close>-th time in the
  process (the environment may differ from one invocation to the next), and
  \<open>logging_getattr\<close> is \<^verbatim>\<open>getattr(logging, name)\<close>, which raises for a name the
  logging module does not define.
\<close>

record host =
  settings :: "nat \<Rightarrow> exn + AppConfiguration"
  logging_getattr :: "string \<Rightarrow> exn + int"

text \<open>
  The module's state. Objects are told apart by identity: every constructed
  \<open>AppConfiguration\<close> is stored in \<open>objects\<close> and referred to by its position
  there; the global \<open>app_config\<close> holds such a reference or \<open>None\<close>.
\<close>

record module_state =
  app_config :: "nat option"
  objects :: "AppConfiguration list"
  constructor_calls :: nat
  logging_calls :: "logging_call list"

definition initial_state :: module_state where
  "initial_state = \<lparr>app_config = None, objects = [], constructor_calls = 0, logging_calls = []\<rparr>"

text \<open>\<^verbatim>\<open>get_app_config\<close>, lines 37 to 46.\<close>

definition get_app_config :: "host \<Rightarrow> module_state \<Rightarrow> (exn + nat) \<times> module_state" where
  "get_app_config h s =
     (case app_config s of
        None \<Rightarrow>
          (case settings h (constructor_calls s) of
             Inl e \<Rightarrow> (Inl e, s\<lparr>constructor_calls := Suc (constructor_calls s)\<rparr>)
           | Inr cfg \<Rightarrow>
               (let c = length (objects s);
                    s1 = s\<lparr>app_config := Some c, objects := objects s @ [cfg],
                           constructor_calls := Suc (constructor_calls s)\<rparr>
                in if app_logging_enable cfg then
                     (case logging_getattr h (app_logging_level cfg) of
                        Inl e \<Rightarrow> (Inl e, s1)
                      | Inr logging_level \<Rightarrow>
                          (Inr c, s1\<lparr>logging_calls := logging_calls s1 @ [BasicConfig logging_level]\<rparr>))
                   else (Inr c, s1\<lparr>logging_calls := logging_calls s1 @ [Disable CRITICAL]\<rparr>)))
      | Some c \<Rightarrow> (Inr c, s))"

text \<open>A sequence of \<open>n\<close> calls within one process, with what each call gave.\<close>

fun get_app_config_times :: "host \<Rightarrow> nat \<Rightarrow> module_state \<Rightarrow> (exn + nat) list \<times> module_state" where
  "get_app_config_times h 0 s = ([], s)"
| "get_app_config_times h (Suc n) s =
     (case get_app_config h s of
        (r, s1) \<Rightarrow> (case get_app_config_times h n s1 of (rs, s2) \<Rightarrow> (r # rs, s2)))"

text \<open>Concrete hosts: one with complete settings, one whose environment lacks them.\<close>

definition example_settings :: AppConfiguration where
  "example_settings =
     \<lparr>app_storage_blob_url = ''https://store.example/blob'',
      app_storage_queue_url = ''https://store.example/queue'',
      app_cosmos_connstr = ''AccountEndpoint=https://db.example;'',
      app_cosmos_database = ''cps'',
      app_cosmos_container_schema = ''Schemas'',
      app_cosmos_container_process = ''Processes'',
      app_cps_configuration = ''cps-configuration'',
      app_cps_processes = ''cps-processes'',
      app_message_queue_extract = ''extract-queue'',
      app_cps_max_filesize_mb = 20,
      app_logging_enable = True,
      app_logging_level = ''INFO''\<rparr>"

definition example_logging_getattr :: "string \<Rightarrow> exn + int" where
  "example_logging_getattr nm =
     (if nm = ''DEBUG'' then Inr 10
      else if nm = ''INFO'' then Inr 20
      else if nm = ''WARNING'' then Inr 30
      else if nm = ''ERROR'' then Inr 40
      else if nm = ''CRITICAL'' then Inr 50
      else Inl (AttributeError nm))"

definition example_host :: host where
  "example_host = \<lparr>settings = (\<lambda>k. Inr example_settings), logging_getattr = example_logging_getattr\<rparr>"

definition unconfigured_host :: host where
  "unconfigured_host = \<lparr>settings = (\<lambda>k. Inl ValidationError), logging_getattr = example_logging_getattr\<rparr>"

text \<open>A host whose settings enable logging under a level name the logging module lacks.\<close>

definition misnamed_level_host :: host where
  "misnamed_level_host =
     \<lparr>settings = (\<lambda>k. Inr (example_settings\<lparr>app_logging_level := ''VERBOSE''\<rparr>)),
      logging_getattr = example_logging_getattr\<rparr>"

section \<open>Data of a pipeline run\<close>

text \<open>
  Modelled from the spec: the entities of a pipeline run, whose classes are defined
  outside the handler's file. An artifact has a name, a type tag from a closed set and an
  ordered log; a log entry names its source step and carries a message; a source file
  reference is a storage location and a name; a step result is the process id, the
  step's name and a mapping; a catalog record gives a schema's file name and class name.
\<close>

datatype ArtifactType = SourceContent | ExtractedContent | TransformedContent

record PipelineLogEntry =
  source :: string
  message :: string

record Artifact =
  name :: string
  artifact_type :: ArtifactType
  log_entries :: "PipelineLogEntry list"

record FileRef =
  location :: string
  file_name :: string

record PipelineStatus =
  process_id :: string
  schema_id :: string

record StepResult =
  process_id :: string
  step_name :: string
  result :: "string \<rightharpoonup> string"

record Schema =
  FileName :: string
  ClassName :: string

section \<open>Calls to collaborators\<close>

text \<open>
  Every call that leaves the handler (analysis service, catalog, object store, the
  pipeline context's allocation of a file, standard output) is recorded as an event.
  The events made so far are the history of the run; they are also what a collaborator's
  answer may depend on, so that one environment describes a service whose state
  changes as it is called.
\<close>

datatype event =
    Print "StepResult option"
  | GetAnalyzerDetailById string string
  | GetSchema string string string string
  | LoadSchemaFromBlob string string string string
  | BuildContentUnderstandingSchema string
  | BeginCreateAnalyzer string string string
  | DownloadStream FileRef string string
  | BeginAnalyzeStream string string string
  | PollResult string string
  | AddFile string ArtifactType
  | UploadJsonText Artifact string string string

type_synonym history = "event list"

type_synonym 'a io = "history \<Rightarrow> (exn + 'a) \<times> history"

definition call :: "event \<Rightarrow> (history \<Rightarrow> exn + 'a) \<Rightarrow> 'a io" where
  "call ev answer tr = (answer tr, tr @ [ev])"

definition and_then :: "'a io \<Rightarrow> ('a \<Rightarrow> 'b io) \<Rightarrow> 'b io" where
  "and_then m k tr = (case m tr of (Inl e, tr') \<Rightarrow> (Inl e, tr') | (Inr v, tr') \<Rightarrow> k v tr')"

text \<open>
  \<^verbatim>\<open>try: m  except requests.exceptions.HTTPError: handler\<close>. Any other exception
  passes through, and so does whatever the handler itself raises.
\<close>

definition except_HTTPError :: "'a io \<Rightarrow> 'a io \<Rightarrow> 'a io" where
  "except_HTTPError m handler tr =
     (case m tr of
        (Inl (HTTPError status), tr') \<Rightarrow> handler tr'
      | (Inl e, tr') \<Rightarrow> (Inl e, tr')
      | (Inr v, tr') \<Rightarrow> (Inr v, tr'))"

section \<open>The pipeline context\<close>

record DataPipeline =
  pipeline_status :: PipelineStatus
  source_files :: "FileRef list"
  files :: "Artifact list"
  step_results :: "(string \<times> StepResult) list"

record MessageContext =
  data_pipeline :: DataPipeline

text \<open>
  Modelled from the spec: \<^verbatim>\<open>get_previous_step_result\<close>, a method of the pipeline
  context defined outside the handler's file. It looks a step's result up by the step's
  name and is absent when that step has not run.
\<close>

definition get_previous_step_result :: "DataPipeline \<Rightarrow> string \<Rightarrow> StepResult option" where
  "get_previous_step_result dp step = map_of (step_results dp) step"

text \<open>
  Modelled from the spec: \<^verbatim>\<open>get_source_files\<close>, a method of the pipeline context
  defined outside the handler's file. It is the ordered sequence of intake documents.
\<close>

definition get_source_files :: "DataPipeline \<Rightarrow> FileRef list" where
  "get_source_files dp = source_files dp"

text \<open>
  Modelled from the spec: \<^verbatim>\<open>add_file\<close>, a method of the pipeline context defined
  outside the handler's file. It allocates a new artifact entry with the given name and
  type and an empty log, appends it to \<open>files\<close> and returns it. The returned artifact
  is the object stored in \<open>files\<close>: it is returned as its position there, so that
  what the caller does to it is done to the stored entry.
\<close>

definition add_file :: "DataPipeline \<Rightarrow> string \<Rightarrow> ArtifactType \<Rightarrow> nat \<times> DataPipeline" where
  "add_file dp fname atype =
     (length (files dp),
      dp\<lparr>files := files dp @ [\<lparr>name = fname, artifact_type = atype, log_entries = []\<rparr>]\<rparr>)"

text \<open>\<^verbatim>\<open>xs[0]\<close>: Python raises IndexError on an empty list.\<close>

definition first_item :: "'a list \<Rightarrow> exn + 'a" where
  "first_item xs = (case xs of [] \<Rightarrow> Inl IndexError | x # _ \<Rightarrow> Inr x)"

section \<open>The extraction step\<close>

text \<open>
  The settings of the application configuration that the handler reads, the application
  context that holds them, and the handler with the name of its step.
\<close>

record Configuration =
  app_content_understanding_endpoint :: string
  app_cosmos_connstr :: string
  app_cosmos_database :: string
  app_cosmos_container_schema :: string
  app_storage_blob_url :: string
  app_cps_configuration :: string
  app_cps_processes :: string

record AppContext =
  configuration :: Configuration

record ExtractHandler =
  application_context :: AppContext
  handler_name :: string

text \<open>
  The collaborators the handler calls, all of them defined outside the handler's file.
  Each takes the history of the run before the call and the call's arguments (the
  helper's methods take the endpoint the helper was built with first) and either
  raises or returns. \<open>AnalyzedResult\<close> is the validating constructor applied to the
  polled payload and \<open>model_dump_json\<close> its serialisation; they are local
  computations and leave no event.
\<close>

record collaborators =
  get_analyzer_detail_by_id :: "history \<Rightarrow> string \<Rightarrow> string \<Rightarrow> exn + unit"
  get_schema :: "history \<Rightarrow> string \<Rightarrow> string \<Rightarrow> string \<Rightarrow> string \<Rightarrow> exn + Schema"
  load_schema_from_blob :: "history \<Rightarrow> string \<Rightarrow> string \<Rightarrow> string \<Rightarrow> string \<Rightarrow> exn + string"
  build_content_understanding_schema :: "history \<Rightarrow> string \<Rightarrow> exn + string"
  begin_create_analyzer :: "history \<Rightarrow> string \<Rightarrow> string \<Rightarrow> string \<Rightarrow> exn + unit"
  download_stream :: "history \<Rightarrow> FileRef \<Rightarrow> string \<Rightarrow> string \<Rightarrow> exn + string"
  begin_analyze_stream :: "history \<Rightarrow> string \<Rightarrow> string \<Rightarrow> string \<Rightarrow> exn + string"
  poll_result :: "history \<Rightarrow> string \<Rightarrow> string \<Rightarrow> exn + string"
  AnalyzedResult :: "string \<Rightarrow> exn + string"
  model_dump_json :: "string \<Rightarrow> string"
  upload_json_text :: "history \<Rightarrow> Artifact \<Rightarrow> string \<Rightarrow> string \<Rightarrow> string \<Rightarrow> exn + unit"

text \<open>Lines 40 to 55: the body of the \<^verbatim>\<open>except\<close> clause.\<close>

definition provision :: "collaborators \<Rightarrow> Configuration \<Rightarrow> string \<Rightarrow> unit io" where
  "provision io cfg analyzer_id =
     and_then
       (call (GetSchema (app_cosmos_connstr cfg) (app_cosmos_database cfg)
                (app_cosmos_container_schema cfg) analyzer_id)
          (\<lambda>tr. get_schema io tr (app_cosmos_connstr cfg) (app_cosmos_database cfg)
                   (app_cosmos_container_schema cfg) analyzer_id))
       (\<lambda>selected_schema.
     and_then
       (call (LoadSchemaFromBlob (app_storage_blob_url cfg)
                (app_cps_configuration cfg @ ''/Schemas/'' @ analyzer_id)
                (FileName selected_schema) (ClassName selected_schema))
          (\<lambda>tr. load_schema_from_blob io tr (app_storage_blob_url cfg)
                   (app_cps_configuration cfg @ ''/Schemas/'' @ analyzer_id)
                   (FileName selected_schema) (ClassName selected_schema)))
       (\<lambda>schema_model.
     and_then
       (call (BuildContentUnderstandingSchema schema_model)
          (\<lambda>tr. build_content_understanding_schema io tr schema_model))
       (\<lambda>cu_schema.
     call (BeginCreateAnalyzer (app_content_understanding_endpoint cfg) analyzer_id cu_schema)
       (\<lambda>tr. begin_create_analyzer io tr (app_content_understanding_endpoint cfg)
                analyzer_id cu_schema))))"

text \<open>Lines 36 to 55: the existence check and its \<^verbatim>\<open>except\<close> clause.\<close>

definition resolve_analyzer :: "collaborators \<Rightarrow> Configuration \<Rightarrow> string \<Rightarrow> unit io" where
  "resolve_analyzer io cfg analyzer_id =
     except_HTTPError
       (call (GetAnalyzerDetailById (app_content_understanding_endpoint cfg) analyzer_id)
          (\<lambda>tr. get_analyzer_detail_by_id io tr (app_content_understanding_endpoint cfg)
                   analyzer_id))
       (provision io cfg analyzer_id)"

text \<open>
  Lines 57 to 66. The arguments of \<^verbatim>\<open>begin_analyze_stream\<close> are evaluated before the
  call: the first source file is taken, then its stream is downloaded.
\<close>

definition analyze :: "collaborators \<Rightarrow> Configuration \<Rightarrow> DataPipeline \<Rightarrow> string \<Rightarrow> string io" where
  "analyze io cfg dp analyzer_id =
     and_then (\<lambda>tr. (first_item (get_source_files dp), tr))
       (\<lambda>source_file.
     and_then
       (call (DownloadStream source_file (app_storage_blob_url cfg) (app_cps_processes cfg))
          (\<lambda>tr. download_stream io tr source_file (app_storage_blob_url cfg)
                   (app_cps_processes cfg)))
       (\<lambda>file_stream.
     and_then
       (call (BeginAnalyzeStream (app_content_understanding_endpoint cfg) analyzer_id file_stream)
          (\<lambda>tr. begin_analyze_stream io tr (app_content_understanding_endpoint cfg)
                   analyzer_id file_stream))
       (\<lambda>response.
     and_then
       (call (PollResult (app_content_understanding_endpoint cfg) response)
          (\<lambda>tr. poll_result io tr (app_content_understanding_endpoint cfg) response))
       (\<lambda>response. \<lambda>tr. (AnalyzedResult io response, tr)))))"

text \<open>
  Lines 70 to 99: the result file is allocated in the context, one log entry is appended
  to it (to the entry stored in \<open>files\<close>, since \<^verbatim>\<open>add_file\<close> returned that object), it
  is uploaded, and the step's result is built. The context keeps the new file when the
  upload raises.
\<close>

definition append_log_entry :: "DataPipeline \<Rightarrow> nat \<Rightarrow> PipelineLogEntry \<Rightarrow> DataPipeline" where
  "append_log_entry dp i entry =
     dp\<lparr>files := (files dp)[i := (files dp ! i)\<lparr>log_entries := log_entries (files dp ! i) @ [entry]\<rparr>]\<rparr>"

definition save_result ::
  "collaborators \<Rightarrow> ExtractHandler \<Rightarrow> MessageContext \<Rightarrow> string \<Rightarrow> history
     \<Rightarrow> (exn + StepResult) \<times> MessageContext \<times> history" where
  "save_result io self context analyzed tr =
     (let cfg = configuration (application_context self);
          (result_file, dp1) = add_file (data_pipeline context)
             ''content_understanding_output.json'' ExtractedContent;
          tr1 = tr @ [AddFile ''content_understanding_output.json'' ExtractedContent];
          dp2 = append_log_entry dp1 result_file
             \<lparr>source = handler_name self,
              message = ''Content Understanding Extraction Result has been added''\<rparr>;
          context2 = context\<lparr>data_pipeline := dp2\<rparr>
      in case call (UploadJsonText (files dp2 ! result_file) (app_storage_blob_url cfg)
                      (app_cps_processes cfg) (model_dump_json io analyzed))
                (\<lambda>h. upload_json_text io h (files dp2 ! result_file) (app_storage_blob_url cfg)
                        (app_cps_processes cfg) (model_dump_json io analyzed)) tr1 of
           (Inl e, tr2) \<Rightarrow> (Inl e, context2, tr2)
         | (Inr _, tr2) \<Rightarrow>
             (Inr \<lparr>process_id = PipelineStatus.process_id (pipeline_status dp2),
                   step_name = handler_name self,
                   result = [''result'' \<mapsto> ''success'',
                             ''file_name'' \<mapsto> name (files dp2 ! result_file)]\<rparr>,
              context2, tr2))"

text \<open>\<^verbatim>\<open>ExtractHandler.execute\<close>, lines 24 to 99.\<close>

definition execute ::
  "collaborators \<Rightarrow> ExtractHandler \<Rightarrow> MessageContext \<Rightarrow> history
     \<Rightarrow> (exn + StepResult) \<times> MessageContext \<times> history" where
  "execute io self context tr =
     (let cfg = configuration (application_context self);
          dp = data_pipeline context;
          tr1 = tr @ [Print (get_previous_step_result dp (handler_name self))];
          analyzer_id = schema_id (pipeline_status dp)
      in case and_then (resolve_analyzer io cfg analyzer_id)
                (\<lambda>_. analyze io cfg dp analyzer_id) tr1 of
           (Inl e, tr2) \<Rightarrow> (Inl e, context, tr2)
         | (Inr analyzed, tr2) \<Rightarrow> save_result io self context analyzed tr2)"

section \<open>Kinds of events\<close>

fun provisioning_event :: "event \<Rightarrow> bool" where
  "provisioning_event (GetSchema _ _ _ _) = True"
| "provisioning_event (LoadSchemaFromBlob _ _ _ _) = True"
| "provisioning_event (BuildContentUnderstandingSchema _) = True"
| "provisioning_event (BeginCreateAnalyzer _ _ _) = True"
| "provisioning_event _ = False"

fun create_analyzer_event :: "event \<Rightarrow> bool" where
  "create_analyzer_event (BeginCreateAnalyzer _ _ _) = True"
| "create_analyzer_event _ = False"

text \<open>Network calls: everything but printing and the context's local allocation.\<close>

fun network_event :: "event \<Rightarrow> bool" where
  "network_event (Print _) = False"
| "network_event (AddFile _ _) = False"
| "network_event _ = True"

text \<open>
  The answer the existence check gives in an execution started on history \<open>tr\<close>: the
  check is the first call after the handler has printed its previous result.
\<close>

definition existence_check ::
  "collaborators \<Rightarrow> ExtractHandler \<Rightarrow> MessageContext \<Rightarrow> history \<Rightarrow> exn + unit" where
  "existence_check io self context tr =
     get_analyzer_detail_by_id io
       (tr @ [Print (get_previous_step_result (data_pipeline context) (handler_name self))])
       (app_content_understanding_endpoint (configuration (application_context self)))
       (schema_id (pipeline_status (data_pipeline context)))"

section \<open>A concrete run\<close>

text \<open>
  An analysis service that remembers: an analyzer exists once a create-analyzer call
  for its id stands in the history, and the detail lookup answers 404 before that.
\<close>

fun creates :: "string \<Rightarrow> event \<Rightarrow> bool" where
  "creates i (BeginCreateAnalyzer _ j _) = (i = j)"
| "creates i _ = False"

definition example_service :: collaborators where
  "example_service =
     \<lparr>get_analyzer_detail_by_id =
        (\<lambda>tr endpoint i. if list_ex (creates i) tr then Inr () else Inl (HTTPError 404)),
      get_schema = (\<lambda>tr c d k i. Inr \<lparr>FileName = ''invoice.py'', ClassName = ''Invoice''\<rparr>),
      load_schema_from_blob = (\<lambda>tr u c b m. Inr ''class Invoice''),
      build_content_understanding_schema = (\<lambda>tr m. Inr ''template''),
      begin_create_analyzer = (\<lambda>tr endpoint i t. Inr ()),
      download_stream = (\<lambda>tr f u c. Inr ''%PDF''),
      begin_analyze_stream = (\<lambda>tr endpoint i st. Inr ''job-1''),
      poll_result = (\<lambda>tr endpoint r. Inr ''{status: Succeeded}''),
      AnalyzedResult = (\<lambda>r. Inr r),
      model_dump_json = (\<lambda>a. a),
      upload_json_text = (\<lambda>tr a u c t. Inr ())\<rparr>"

definition example_configuration :: Configuration where
  "example_configuration =
     \<lparr>app_content_understanding_endpoint = ''https://cu.example'',
      app_cosmos_connstr = ''AccountEndpoint=https://db.example;'',
      app_cosmos_database = ''cps'',
      app_cosmos_container_schema = ''Schemas'',
      app_storage_blob_url = ''https://store.example/blob'',
      app_cps_configuration = ''cps-configuration'',
      app_cps_processes = ''cps-processes''\<rparr>"

definition example_handler :: ExtractHandler where
  "example_handler =
     \<lparr>application_context = \<lparr>configuration = example_configuration\<rparr>,
      handler_name = ''extract''\<rparr>"

definition example_context :: MessageContext where
  "example_context =
     \<lparr>data_pipeline =
        \<lparr>pipeline_status = \<lparr>PipelineStatus.process_id = ''p-1'', schema_id = ''inv-2025''\<rparr>,
         source_files = [\<lparr>location = ''p-1'', file_name = ''invoice.pdf''\<rparr>],
         files = [],
         step_results = []\<rparr>\<rparr>"

definition output_file :: Artifact where
  "output_file =
     \<lparr>name = ''content_understanding_output.json'', artifact_type = ExtractedContent,
      log_entries = [\<lparr>source = ''extract'',
                      message = ''Content Understanding Extraction Result has been added''\<rparr>]\<rparr>"

text \<open>The same run with no source file, and services that fail in one place.\<close>

definition empty_context :: MessageContext where
  "empty_context =
     example_context\<lparr>data_pipeline := (data_pipeline example_context)\<lparr>source_files := []\<rparr>\<rparr>"

definition unavailable_service :: collaborators where
  "unavailable_service =
     example_service\<lparr>get_analyzer_detail_by_id := (\<lambda>tr endpoint i. Inl (HTTPError 500))\<rparr>"

definition unreachable_service :: collaborators where
  "unreachable_service =
     example_service\<lparr>get_analyzer_detail_by_id :=
       (\<lambda>tr endpoint i. Inl (OtherException ''ConnectionError''))\<rparr>"

definition failing_analysis :: collaborators where
  "failing_analysis =
     example_service\<lparr>poll_result := (\<lambda>tr endpoint r. Inl (OtherException ''RuntimeError''))\<rparr>"

definition catalog_down :: collaborators where
  "catalog_down =
     example_service\<lparr>get_schema :=
       (\<lambda>tr c d k i. Inl (OtherException ''CosmosHttpResponseError''))\<rparr>"

definition loader_down :: collaborators where
  "loader_down =
     example_service\<lparr>load_schema_from_blob :=
       (\<lambda>tr u c b m. Inl (OtherException ''ResourceNotFoundError''))\<rparr>"

text \<open>What the concrete run is expected to leave behind.\<close>

definition example_result :: StepResult where
  "example_result =
     \<lparr>process_id = ''p-1'', step_name = ''extract'',
      result = [''result'' \<mapsto> ''success'',
                ''file_name'' \<mapsto> ''content_understanding_output.json'']\<rparr>"

definition example_context_after :: MessageContext where
  "example_context_after =
     example_context\<lparr>data_pipeline := (data_pipeline example_context)\<lparr>files := [output_file]\<rparr>\<rparr>"

definition check_event :: event where
  "check_event = GetAnalyzerDetailById ''https://cu.example'' ''inv-2025''"

definition provisioning_events :: "event list" where
  "provisioning_events =
     [GetSchema ''AccountEndpoint=https://db.example;'' ''cps'' ''Schemas'' ''inv-2025'',
      LoadSchemaFromBlob ''https://store.example/blob'' ''cps-configuration/Schemas/inv-2025''
        ''invoice.py'' ''Invoice'',
      BuildContentUnderstandingSchema ''class Invoice'',
      BeginCreateAnalyzer ''https://cu.example'' ''inv-2025'' ''template'']"

definition analysis_events :: "event list" where
  "analysis_events =
     [DownloadStream \<lparr>location = ''p-1'', file_name = ''invoice.pdf''\<rparr>
        ''https://store.example/blob'' ''cps-processes'',
      BeginAnalyzeStream ''https://cu.example'' ''inv-2025'' ''%PDF'',
      PollResult ''https://cu.example'' ''job-1'']"

definition saving_events :: "event list" where
  "saving_events =
     [AddFile ''content_understanding_output.json'' ExtractedContent,
      UploadJsonText output_file ''https://store.example/blob'' ''cps-processes''
        ''{status: Succeeded}'']"

definition example_history :: history where
  "example_history =
     Print None # check_event # provisioning_events @ analysis_events @ saving_events"

section \<open>Names used in the statements\<close>

abbreviation cfg_of :: "ExtractHandler \<Rightarrow> Configuration" where
  "cfg_of self \<equiv> configuration (application_context self)"

abbreviation analyzer_id_of :: "MessageContext \<Rightarrow> string" where
  "analyzer_id_of context \<equiv> schema_id (pipeline_status (data_pipeline context))"

abbreviation print_event :: "ExtractHandler \<Rightarrow> MessageContext \<Rightarrow> event" where
  "print_event self context \<equiv>
     Print (get_previous_step_result (data_pipeline context) (handler_name self))"

abbreviation check_event_of :: "ExtractHandler \<Rightarrow> MessageContext \<Rightarrow> event" where
  "check_event_of self context \<equiv>
     GetAnalyzerDetailById (app_content_understanding_endpoint (cfg_of self))
       (analyzer_id_of context)"

abbreviation output_of :: "ExtractHandler \<Rightarrow> Artifact" where
  "output_of self \<equiv>
     \<lparr>name = ''content_understanding_output.json'', artifact_type = ExtractedContent,
      log_entries = [\<lparr>source = handler_name self,
                      message = ''Content Understanding Extraction Result has been added''\<rparr>]\<rparr>"

section \<open>Histories of the parts of the step\<close>

lemma provision_history:
  "\<exists>prov. snd (provision io cfg i tr) = tr @ prov \<and> list_all provisioning_event prov"
  by (auto simp: provision_def and_then_def call_def split: sum.splits prod.splits)

text \<open>Where provisioning stops when one of its calls raises, and what it gives otherwise.\<close>

lemma provision_lookup_raises:
  assumes "get_schema io tr (app_cosmos_connstr cfg) (app_cosmos_database cfg)
             (app_cosmos_container_schema cfg) i = Inl e"
  shows "provision io cfg i tr =
           (Inl e, tr @ [GetSchema (app_cosmos_connstr cfg) (app_cosmos_database cfg)
                           (app_cosmos_container_schema cfg) i])"
  using assms by (simp add: provision_def and_then_def call_def)

lemma provision_load_raises:
  assumes "get_schema io tr (app_cosmos_connstr cfg) (app_cosmos_database cfg)
             (app_cosmos_container_schema cfg) i = Inr selected_schema"
    and "load_schema_from_blob io
           (tr @ [GetSchema (app_cosmos_connstr cfg) (app_cosmos_database cfg)
                    (app_cosmos_container_schema cfg) i])
           (app_storage_blob_url cfg) (app_cps_configuration cfg @ ''/Schemas/'' @ i)
           (FileName selected_schema) (ClassName selected_schema) = Inl e"
  shows "provision io cfg i tr =
           (Inl e, tr @ [GetSchema (app_cosmos_connstr cfg) (app_cosmos_database cfg)
                           (app_cosmos_container_schema cfg) i,
                         LoadSchemaFromBlob (app_storage_blob_url cfg)
                           (app_cps_configuration cfg @ ''/Schemas/'' @ i)
                           (FileName selected_schema) (ClassName selected_schema)])"
  using assms by (simp add: provision_def and_then_def call_def)

lemma provision_build_raises:
  assumes "get_schema io tr (app_cosmos_connstr cfg) (app_cosmos_database cfg)
             (app_cosmos_container_schema cfg) i = Inr selected_schema"
    and "load_schema_from_blob io
           (tr @ [GetSchema (app_cosmos_connstr cfg) (app_cosmos_database cfg)
                    (app_cosmos_container_schema cfg) i])
           (app_storage_blob_url cfg) (app_cps_configuration cfg @ ''/Schemas/'' @ i)
           (FileName selected_schema) (ClassName selected_schema) = Inr schema_model"
    and "build_content_understanding_schema io
           (tr @ [GetSchema (app_cosmos_connstr cfg) (app_cosmos_database cfg)
                    (app_cosmos_container_schema cfg) i,
                  LoadSchemaFromBlob (app_storage_blob_url cfg)
                    (app_cps_configuration cfg @ ''/Schemas/'' @ i)
                    (FileName selected_schema) (ClassName selected_schema)])
           schema_model = Inl e"
  shows "provision io cfg i tr =
           (Inl e, tr @ [GetSchema (app_cosmos_connstr cfg) (app_cosmos_database cfg)
                           (app_cosmos_container_schema cfg) i,
                         LoadSchemaFromBlob (app_storage_blob_url cfg)
                           (app_cps_configuration cfg @ ''/Schemas/'' @ i)
                           (FileName selected_schema) (ClassName selected_schema),
                         BuildContentUnderstandingSchema schema_model])"
  using assms by (simp add: provision_def and_then_def call_def)

lemma provision_create:
  assumes "get_schema io tr (app_cosmos_connstr cfg) (app_cosmos_database cfg)
             (app_cosmos_container_schema cfg) i = Inr selected_schema"
    and "load_schema_from_blob io
           (tr @ [GetSchema (app_cosmos_connstr cfg) (app_cosmos_database cfg)
                    (app_cosmos_container_schema cfg) i])
           (app_storage_blob_url cfg) (app_cps_configuration cfg @ ''/Schemas/'' @ i)
           (FileName selected_schema) (ClassName selected_schema) = Inr schema_model"
    and "build_content_understanding_schema io
           (tr @ [GetSchema (app_cosmos_connstr cfg) (app_cosmos_database cfg)
                    (app_cosmos_container_schema cfg) i,
                  LoadSchemaFromBlob (app_storage_blob_url cfg)
                    (app_cps_configuration cfg @ ''/Schemas/'' @ i)
                    (FileName selected_schema) (ClassName selected_schema)])
           schema_model = Inr cu_schema"
  shows "provision io cfg i tr =
           (begin_create_analyzer io
              (tr @ [GetSchema (app_cosmos_connstr cfg) (app_cosmos_database cfg)
                       (app_cosmos_container_schema cfg) i,
                     LoadSchemaFromBlob (app_storage_blob_url cfg)
                       (app_cps_configuration cfg @ ''/Schemas/'' @ i)
                       (FileName selected_schema) (ClassName selected_schema),
                     BuildContentUnderstandingSchema schema_model])
              (app_content_understanding_endpoint cfg) i cu_schema,
            tr @ [GetSchema (app_cosmos_connstr cfg) (app_cosmos_database cfg)
                    (app_cosmos_container_schema cfg) i,
                  LoadSchemaFromBlob (app_storage_blob_url cfg)
                    (app_cps_configuration cfg @ ''/Schemas/'' @ i)
                    (FileName selected_schema) (ClassName selected_schema),
                  BuildContentUnderstandingSchema schema_model,
                  BeginCreateAnalyzer (app_content_understanding_endpoint cfg) i cu_schema])"
  using assms by (simp add: provision_def and_then_def call_def)

lemma resolve_analyzer_found:
  assumes "get_analyzer_detail_by_id io tr (app_content_understanding_endpoint cfg) i = Inr ()"
  shows "resolve_analyzer io cfg i tr =
           (Inr (), tr @ [GetAnalyzerDetailById (app_content_understanding_endpoint cfg) i])"
  using assms by (simp add: resolve_analyzer_def except_HTTPError_def call_def)

lemma resolve_analyzer_HTTPError:
  assumes "get_analyzer_detail_by_id io tr (app_content_understanding_endpoint cfg) i
             = Inl (HTTPError status)"
  shows "resolve_analyzer io cfg i tr =
           provision io cfg i
             (tr @ [GetAnalyzerDetailById (app_content_understanding_endpoint cfg) i])"
  using assms by (simp add: resolve_analyzer_def except_HTTPError_def call_def)

lemma resolve_analyzer_other:
  assumes "get_analyzer_detail_by_id io tr (app_content_understanding_endpoint cfg) i = Inl e"
    and "\<forall>status. e \<noteq> HTTPError status"
  shows "resolve_analyzer io cfg i tr =
           (Inl e, tr @ [GetAnalyzerDetailById (app_content_understanding_endpoint cfg) i])"
  using assms by (cases e) (auto simp: resolve_analyzer_def except_HTTPError_def call_def)

lemma resolve_analyzer_history:
  "\<exists>prov. snd (resolve_analyzer io cfg i tr) =
            tr @ GetAnalyzerDetailById (app_content_understanding_endpoint cfg) i # prov
          \<and> list_all provisioning_event prov"
proof (cases "get_analyzer_detail_by_id io tr (app_content_understanding_endpoint cfg) i")
  case (Inr u)
  then show ?thesis by (simp add: resolve_analyzer_found)
next
  case (Inl e)
  show ?thesis
  proof (cases "\<exists>status. e = HTTPError status")
    case True
    then obtain status where "e = HTTPError status" ..
    with Inl have "resolve_analyzer io cfg i tr =
        provision io cfg i
          (tr @ [GetAnalyzerDetailById (app_content_understanding_endpoint cfg) i])"
      by (simp add: resolve_analyzer_HTTPError)
    then show ?thesis
      using provision_history
        [of io cfg i "tr @ [GetAnalyzerDetailById (app_content_understanding_endpoint cfg) i]"]
      by auto
  next
    case False
    with Inl show ?thesis by (simp add: resolve_analyzer_other)
  qed
qed

lemma analyze_no_source:
  "get_source_files dp = [] \<Longrightarrow> analyze io cfg dp i tr = (Inl IndexError, tr)"
  by (simp add: analyze_def and_then_def first_item_def)

lemma analyze_history:
  "\<exists>an. snd (analyze io cfg dp i tr) = tr @ an \<and> \<not> list_ex provisioning_event an
        \<and> (case get_source_files dp of
              [] \<Rightarrow> an = []
            | f # fs \<Rightarrow> an \<noteq> [] \<and>
                hd an = DownloadStream f (app_storage_blob_url cfg) (app_cps_processes cfg))"
  by (auto simp: analyze_def and_then_def call_def first_item_def
           split: sum.splits prod.splits list.splits)

lemma analyze_poll_raises:
  assumes "get_source_files dp = f # fs"
    and "download_stream io tr f (app_storage_blob_url cfg) (app_cps_processes cfg)
           = Inr file_stream"
    and "begin_analyze_stream io
           (tr @ [DownloadStream f (app_storage_blob_url cfg) (app_cps_processes cfg)])
           (app_content_understanding_endpoint cfg) i file_stream = Inr response"
    and "poll_result io
           (tr @ [DownloadStream f (app_storage_blob_url cfg) (app_cps_processes cfg),
                  BeginAnalyzeStream (app_content_understanding_endpoint cfg) i file_stream])
           (app_content_understanding_endpoint cfg) response = Inl e"
  shows "analyze io cfg dp i tr =
           (Inl e,
            tr @ [DownloadStream f (app_storage_blob_url cfg) (app_cps_processes cfg),
                  BeginAnalyzeStream (app_content_understanding_endpoint cfg) i file_stream,
                  PollResult (app_content_understanding_endpoint cfg) response])"
  using assms by (simp add: analyze_def and_then_def call_def first_item_def)

lemma save_result_success:
  assumes "save_result io self context analyzed tr = (Inr r, context', tr')"
  shows "r = \<lparr>process_id = PipelineStatus.process_id (pipeline_status (data_pipeline context)),
              step_name = handler_name self,
              result = [''result'' \<mapsto> ''success'',
                        ''file_name'' \<mapsto> ''content_understanding_output.json'']\<rparr>"
    and "context' = context\<lparr>data_pipeline := (data_pipeline context)
           \<lparr>files := files (data_pipeline context) @
              [\<lparr>name = ''content_understanding_output.json'', artifact_type = ExtractedContent,
                log_entries = [\<lparr>source = handler_name self,
                   message = ''Content Understanding Extraction Result has been added''\<rparr>]\<rparr>]\<rparr>\<rparr>"
    and "tr' = tr @ [AddFile ''content_understanding_output.json'' ExtractedContent,
           UploadJsonText
             \<lparr>name = ''content_understanding_output.json'', artifact_type = ExtractedContent,
              log_entries = [\<lparr>source = handler_name self,
                 message = ''Content Understanding Extraction Result has been added''\<rparr>]\<rparr>
             (app_storage_blob_url (configuration (application_context self)))
             (app_cps_processes (configuration (application_context self)))
             (model_dump_json io analyzed)]"
  using assms
  by (auto simp: save_result_def Let_def call_def add_file_def append_log_entry_def
           split: sum.splits prod.splits)

lemma save_result_history:
  "\<exists>a t. snd (snd (save_result io self context analyzed tr)) =
        tr @ [AddFile ''content_understanding_output.json'' ExtractedContent,
              UploadJsonText a (app_storage_blob_url (configuration (application_context self)))
                (app_cps_processes (configuration (application_context self))) t]"
  by (auto simp: save_result_def Let_def call_def add_file_def split: sum.splits prod.splits)

lemma execute_unfold:
  "execute io self context tr =
     (case resolve_analyzer io (configuration (application_context self))
             (schema_id (pipeline_status (data_pipeline context)))
             (tr @ [Print (get_previous_step_result (data_pipeline context) (handler_name self))]) of
        (Inl e, t2) \<Rightarrow> (Inl e, context, t2)
      | (Inr u, t2) \<Rightarrow>
          (case analyze io (configuration (application_context self)) (data_pipeline context)
                  (schema_id (pipeline_status (data_pipeline context))) t2 of
             (Inl e, t3) \<Rightarrow> (Inl e, context, t3)
           | (Inr analyzed, t3) \<Rightarrow> save_result io self context analyzed t3))"
  by (simp add: execute_def and_then_def Let_def split: sum.splits prod.splits)

lemma execute_success:
  assumes "execute io self context tr = (Inr r, context', tr')"
  shows "\<exists>analyzed t3. save_result io self context analyzed t3 = (Inr r, context', tr')"
  using assms by (auto simp: execute_unfold split: sum.splits prod.splits)

lemma execute_resolution_raises:
  assumes "resolve_analyzer io (configuration (application_context self))
             (schema_id (pipeline_status (data_pipeline context)))
             (tr @ [Print (get_previous_step_result (data_pipeline context) (handler_name self))])
           = (Inl e, t2)"
  shows "execute io self context tr = (Inl e, context, t2)"
  using assms by (simp add: execute_unfold)

lemma execute_after_resolution:
  "\<exists>rest. snd (snd (execute io self context tr)) =
            snd (resolve_analyzer io (configuration (application_context self))
                   (schema_id (pipeline_status (data_pipeline context)))
                   (tr @ [Print (get_previous_step_result (data_pipeline context)
                                   (handler_name self))])) @ rest
        \<and> \<not> list_ex provisioning_event rest
        \<and> (fst (resolve_analyzer io (configuration (application_context self))
                   (schema_id (pipeline_status (data_pipeline context)))
                   (tr @ [Print (get_previous_step_result (data_pipeline context)
                                   (handler_name self))])) = Inr ()
             \<longrightarrow> (case get_source_files (data_pipeline context) of
                    [] \<Rightarrow> rest = []
                  | f # fs \<Rightarrow> rest \<noteq> [] \<and>
                      hd rest = DownloadStream f
                        (app_storage_blob_url (configuration (application_context self)))
                        (app_cps_processes (configuration (application_context self)))))"
proof -
  let ?cfg = "configuration (application_context self)"
  let ?dp = "data_pipeline context"
  let ?i = "schema_id (pipeline_status ?dp)"
  let ?t1 = "tr @ [Print (get_previous_step_result ?dp (handler_name self))]"
  obtain r2 t2 where res: "resolve_analyzer io ?cfg ?i ?t1 = (r2, t2)"
    by (cases "resolve_analyzer io ?cfg ?i ?t1")
  show ?thesis
  proof (cases r2)
    case (Inl e)
    with res show ?thesis by (simp add: execute_unfold)
  next
    case (Inr u)
    obtain an where an: "snd (analyze io ?cfg ?dp ?i t2) = t2 @ an"
      "\<not> list_ex provisioning_event an"
      "case get_source_files ?dp of [] \<Rightarrow> an = []
       | f # fs \<Rightarrow> an \<noteq> [] \<and>
           hd an = DownloadStream f (app_storage_blob_url ?cfg) (app_cps_processes ?cfg)"
      using analyze_history [of io ?cfg ?dp ?i t2] by blast
    obtain r3 t3 where ana: "analyze io ?cfg ?dp ?i t2 = (r3, t3)"
      by (cases "analyze io ?cfg ?dp ?i t2")
    with an have t3: "t3 = t2 @ an" by simp
    show ?thesis
    proof (cases r3)
      case (Inl e)
      with res Inr ana t3 an show ?thesis by (simp add: execute_unfold)
    next
      case (Inr analyzed)
      obtain a t where sv: "snd (snd (save_result io self context analyzed t3)) =
          t3 @ [AddFile ''content_understanding_output.json'' ExtractedContent,
                UploadJsonText a (app_storage_blob_url ?cfg) (app_cps_processes ?cfg) t]"
        using save_result_history [of io self "context" analyzed t3] by blast
      have ex: "snd (snd (execute io self context tr)) =
          t2 @ (an @ [AddFile ''content_understanding_output.json'' ExtractedContent,
                UploadJsonText a (app_storage_blob_url ?cfg) (app_cps_processes ?cfg) t])"
        using res \<open>r2 = Inr u\<close> ana Inr sv t3 by (simp add: execute_unfold)
      have "\<not> list_ex provisioning_event
          (an @ [AddFile ''content_understanding_output.json'' ExtractedContent,
                UploadJsonText a (app_storage_blob_url ?cfg) (app_cps_processes ?cfg) t])"
        using an(2) by simp
      moreover have "case get_source_files ?dp of
          [] \<Rightarrow> False
        | f # fs \<Rightarrow>
            hd (an @ [AddFile ''content_understanding_output.json'' ExtractedContent,
                UploadJsonText a (app_storage_blob_url ?cfg) (app_cps_processes ?cfg) t])
              = DownloadStream f (app_storage_blob_url ?cfg) (app_cps_processes ?cfg)"
        using an(3) ana Inr by (auto simp: analyze_no_source split: list.splits)
      ultimately show ?thesis
        using ex res by (auto split: list.splits)
    qed
  qed
qed

section \<open>The concrete runs\<close>

lemmas step_defs =
  execute_def and_then_def resolve_analyzer_def except_HTTPError_def call_def provision_def
  analyze_def first_item_def get_source_files_def get_previous_step_result_def
  save_result_def add_file_def append_log_entry_def existence_check_def Let_def

lemmas example_defs =
  example_service_def example_handler_def example_context_def example_configuration_def
  output_file_def example_result_def example_context_after_def check_event_def
  provisioning_events_def analysis_events_def saving_events_def example_history_def
  empty_context_def unavailable_service_def unreachable_service_def failing_analysis_def
  catalog_down_def loader_down_def

lemma example_run:
  "execute example_service example_handler example_context [] =
     (Inr example_result, example_context_after, example_history)"
  by (simp add: step_defs example_defs)

lemma example_second_run:
  "execute example_service example_handler example_context_after example_history =
     (Inr example_result,
      example_context\<lparr>data_pipeline :=
        (data_pipeline example_context)\<lparr>files := [output_file, output_file]\<rparr>\<rparr>,
      example_history @ Print None # check_event # analysis_events @ saving_events)"
  by (simp add: step_defs example_defs)

section \<open>The existence check and provisioning\<close>

text \<open>
  An exception of the existence check that is not an HTTPError leaves the step as it
  is: nothing is provisioned, nothing is analysed, the context is untouched.
\<close>

lemma existence_check_other_exception_propagates:
  assumes "existence_check io self context tr = Inl e"
    and "\<forall>status. e \<noteq> HTTPError status"
  shows "execute io self context tr =
           (Inl e, context, tr @ [print_event self context, check_event_of self context])"
  using assms
  by (simp add: execute_unfold existence_check_def resolve_analyzer_other)

lemma connection_error_run:
  "execute unreachable_service example_handler example_context [] =
     (Inl (OtherException ''ConnectionError''), example_context, [Print None, check_event])"
  by (simp add: step_defs example_defs)

text \<open>
  An HTTPError of the existence check, whatever its status code, is answered by the
  catalog lookup: the first call of provisioning follows the check.
\<close>

lemma existence_check_HTTPError_provisions:
  assumes "existence_check io self context tr = Inl (HTTPError status)"
  shows "\<exists>rest. snd (snd (execute io self context tr)) =
           tr @ [print_event self context, check_event_of self context,
                 GetSchema (app_cosmos_connstr (cfg_of self)) (app_cosmos_database (cfg_of self))
                   (app_cosmos_container_schema (cfg_of self)) (analyzer_id_of context)] @ rest"
  using assms
  by (auto simp: step_defs split: sum.splits prod.splits)

text \<open>
  C1. The claim: an existence check that fails with anything but not-found propagates
  as a hard failure and never enters provisioning. At the failing input the analysis
  service answers the detail lookup with status 500: the handler catches the HTTPError
  like a 404, fetches the schema from the catalog, loads it, builds the template,
  creates the analyzer, and the step goes on to succeed.
\<close>

theorem existence_check_500_is_provisioned:
  "existence_check unavailable_service example_handler example_context [] = Inl (HTTPError 500)
   \<and> execute unavailable_service example_handler example_context [] =
       (Inr example_result, example_context_after,
        Print None # check_event # provisioning_events @ analysis_events @ saving_events)
   \<and> list_ex create_analyzer_event provisioning_events"
  by (simp add: step_defs example_defs)

text \<open>
  C2, as stated: with no source file the step fails before any network call. It does
  fail, with the IndexError of taking the first source file, but only after the
  existence check, here followed by the four calls of provisioning.
\<close>

theorem empty_source_files_counterexample:
  "get_source_files (data_pipeline empty_context) = []
   \<and> execute example_service example_handler empty_context [] =
       (Inl IndexError, empty_context, Print None # check_event # provisioning_events)
   \<and> list_all network_event (check_event # provisioning_events)"
  by (simp add: step_defs example_defs)

text \<open>
  C2, amended: with no source file the step always fails and leaves the context as it
  was; it has then called the existence check and at most the calls of provisioning,
  and neither downloaded, submitted, polled, allocated a file nor uploaded. When the
  analyzer is resolved without an exception (in particular when the check finds it) the
  failure is the IndexError of taking the first source file.
\<close>

theorem empty_source_files_fail_after_resolution:
  assumes "get_source_files (data_pipeline context) = []"
  shows "\<exists>e prov.
           execute io self context tr =
             (Inl e, context, tr @ print_event self context # check_event_of self context # prov)
         \<and> list_all provisioning_event prov
         \<and> (fst (resolve_analyzer io (cfg_of self) (analyzer_id_of context)
                   (tr @ [print_event self context])) = Inr () \<longrightarrow> e = IndexError)
         \<and> (existence_check io self context tr = Inr () \<longrightarrow> e = IndexError \<and> prov = [])"
proof -
  let ?t1 = "tr @ [print_event self context]"
  obtain r2 t2 where res: "resolve_analyzer io (cfg_of self) (analyzer_id_of context) ?t1 = (r2, t2)"
    by (cases "resolve_analyzer io (cfg_of self) (analyzer_id_of context) ?t1")
  obtain prov where prov: "t2 = ?t1 @ check_event_of self context # prov"
    "list_all provisioning_event prov"
    using resolve_analyzer_history [of io "cfg_of self" "analyzer_id_of context" ?t1] res
    by auto
  have found: "prov = []" if "existence_check io self context tr = Inr ()"
    using that res prov(1) by (simp add: existence_check_def resolve_analyzer_found)
  show ?thesis
  proof (cases r2)
    case (Inl e)
    then have "execute io self context tr =
        (Inl e, context, tr @ print_event self context # check_event_of self context # prov)"
      using res prov(1) by (simp add: execute_unfold)
    moreover have "existence_check io self context tr \<noteq> Inr ()"
      using res Inl by (auto simp: existence_check_def resolve_analyzer_found)
    ultimately show ?thesis
      using prov(2) res Inl by auto
  next
    case (Inr u)
    then have "execute io self context tr =
        (Inl IndexError, context,
         tr @ print_event self context # check_event_of self context # prov)"
      using res prov(1) assms by (simp add: execute_unfold analyze_no_source)
    then show ?thesis
      using prov(2) found by auto
  qed
qed

theorem empty_source_files_witness:
  "get_source_files (data_pipeline empty_context) = []
   \<and> (\<exists>e prov.
           execute example_service example_handler empty_context example_history =
             (Inl e, empty_context,
              example_history @ print_event example_handler empty_context
                # check_event_of example_handler empty_context # prov)
         \<and> list_all provisioning_event prov
         \<and> e = IndexError \<and> prov = [])"
proof -
  have none: "get_source_files (data_pipeline empty_context) = []"
    by (simp add: get_source_files_def example_defs)
  have found: "existence_check example_service example_handler empty_context example_history
                 = Inr ()"
    by (simp add: step_defs example_defs)
  from empty_source_files_fail_after_resolution
    [OF none, of example_service example_handler example_history] found none
  show ?thesis by auto
qed

text \<open>
  C3. When the existence check finds the analyzer, the events of the execution are the
  print, the check and then no catalog lookup, no schema load, no template build and
  no create-analyzer call: analysis follows the check at once, starting with the
  download of the first source file. The history \<open>tr\<close> the execution starts on is
  arbitrary; in particular it may be the history a first, successful execution for the
  same schema id has left, so a second execution then never creates the analyzer again.
\<close>

theorem existing_analyzer_skips_provisioning:
  assumes "existence_check io self context tr = Inr ()"
  shows "\<exists>rest.
           snd (snd (execute io self context tr)) =
             tr @ print_event self context # check_event_of self context # rest
         \<and> \<not> list_ex provisioning_event rest
         \<and> (case get_source_files (data_pipeline context) of
               [] \<Rightarrow> rest = []
             | f # fs \<Rightarrow> rest \<noteq> [] \<and>
                 hd rest = DownloadStream f (app_storage_blob_url (cfg_of self))
                             (app_cps_processes (cfg_of self)))"
proof -
  let ?t1 = "tr @ [print_event self context]"
  have res: "resolve_analyzer io (cfg_of self) (analyzer_id_of context) ?t1 =
               (Inr (), ?t1 @ [check_event_of self context])"
    using assms by (simp add: existence_check_def resolve_analyzer_found)
  from execute_after_resolution [of io self "context" tr] res
  show ?thesis by auto
qed

theorem existing_analyzer_witness:
  "execute example_service example_handler example_context [] =
     (Inr example_result, example_context_after, example_history)
   \<and> analyzer_id_of example_context_after = analyzer_id_of example_context
   \<and> existence_check example_service example_handler example_context_after example_history
       = Inr ()
   \<and> snd (snd (execute example_service example_handler example_context_after example_history))
       = example_history @ Print None # check_event # analysis_events @ saving_events
   \<and> (\<exists>rest.
           snd (snd (execute example_service example_handler example_context_after
                       example_history)) =
             example_history @ print_event example_handler example_context_after
               # check_event_of example_handler example_context_after # rest
         \<and> \<not> list_ex provisioning_event rest
         \<and> (case get_source_files (data_pipeline example_context_after) of
               [] \<Rightarrow> rest = []
             | f # fs \<Rightarrow> rest \<noteq> [] \<and>
                 hd rest = DownloadStream f (app_storage_blob_url (cfg_of example_handler))
                             (app_cps_processes (cfg_of example_handler))))"
proof -
  have found: "existence_check example_service example_handler example_context_after
                 example_history = Inr ()"
    by (simp add: step_defs example_defs)
  have same: "analyzer_id_of example_context_after = analyzer_id_of example_context"
    by (simp add: example_defs)
  from existing_analyzer_skips_provisioning [OF found] found same example_run
    example_second_run
  show ?thesis by simp
qed

text \<open>
  C4, as stated: in every execution whose existence check reports not-found, the four
  calls of provisioning are made in order and create-analyzer is called exactly once.
  Here the check answers 404 and the catalog lookup raises: the step fails with the
  catalog's exception right after the lookup, and neither the schema load nor the
  template build nor create-analyzer is called.
\<close>

theorem missing_analyzer_counterexample:
  "existence_check catalog_down example_handler example_context [] = Inl (HTTPError 404)
   \<and> execute catalog_down example_handler example_context [] =
       (Inl (OtherException ''CosmosHttpResponseError''), example_context,
        [Print None, check_event,
         GetSchema ''AccountEndpoint=https://db.example;'' ''cps'' ''Schemas'' ''inv-2025''])
   \<and> \<not> list_ex create_analyzer_event
         [Print None, check_event,
          GetSchema ''AccountEndpoint=https://db.example;'' ''cps'' ''Schemas'' ''inv-2025'']"
  by (simp add: step_defs example_defs)

text \<open>
  C4, amended. When the existence check reports not-found (an HTTPError with status 404),
  provisioning starts with the catalog lookup by the schema id and goes on as far as its
  calls return: the load from the container
  \<^verbatim>\<open>{app_cps_configuration}/Schemas/{schema_id}\<close> with the record's file name and class
  name, the template build from the loaded schema, and the create-analyzer call for the
  same id with that template. When the lookup, the load or the build raises, the step
  fails with that exception, the context is unchanged, and the events end with the call
  that raised: no later provisioning call and no analysis is made. When the three return,
  the four calls are made in this order, create-analyzer exactly once, everything else
  the execution does comes after them and holds no further provisioning call; and when
  create-analyzer raises, the step fails with its exception right there.
\<close>

theorem missing_analyzer_provisioned_in_order:
  fixes io self "context" tr selected_schema schema_model cu_schema
  defines "cfg \<equiv> cfg_of self"
    and "i \<equiv> analyzer_id_of context"
    and "h \<equiv> tr @ [print_event self context, check_event_of self context]"
  defines "lookup \<equiv> GetSchema (app_cosmos_connstr cfg) (app_cosmos_database cfg)
                       (app_cosmos_container_schema cfg) i"
    and "load \<equiv> LoadSchemaFromBlob (app_storage_blob_url cfg)
                     (app_cps_configuration cfg @ ''/Schemas/'' @ i)
                     (FileName selected_schema) (ClassName selected_schema)"
    and "build \<equiv> BuildContentUnderstandingSchema schema_model"
    and "create \<equiv> BeginCreateAnalyzer (app_content_understanding_endpoint cfg) i cu_schema"
  defines "fetched \<equiv> get_schema io h (app_cosmos_connstr cfg) (app_cosmos_database cfg)
                        (app_cosmos_container_schema cfg) i"
    and "loaded \<equiv> load_schema_from_blob io (h @ [lookup]) (app_storage_blob_url cfg)
                       (app_cps_configuration cfg @ ''/Schemas/'' @ i)
                       (FileName selected_schema) (ClassName selected_schema)"
    and "built \<equiv> build_content_understanding_schema io (h @ [lookup, load]) schema_model"
    and "created \<equiv> begin_create_analyzer io (h @ [lookup, load, build])
                        (app_content_understanding_endpoint cfg) i cu_schema"
  assumes missing: "existence_check io self context tr = Inl (HTTPError 404)"
  shows "(fetched = Inl e \<longrightarrow>
            execute io self context tr = (Inl e, context, h @ [lookup]))
       \<and> (fetched = Inr selected_schema \<and> loaded = Inl e \<longrightarrow>
            execute io self context tr = (Inl e, context, h @ [lookup, load]))
       \<and> (fetched = Inr selected_schema \<and> loaded = Inr schema_model \<and> built = Inl e \<longrightarrow>
            execute io self context tr = (Inl e, context, h @ [lookup, load, build]))
       \<and> (fetched = Inr selected_schema \<and> loaded = Inr schema_model \<and> built = Inr cu_schema \<longrightarrow>
            (\<exists>rest. snd (snd (execute io self context tr)) =
                      h @ [lookup, load, build, create] @ rest
                  \<and> \<not> list_ex provisioning_event rest)
          \<and> (created = Inl e \<longrightarrow>
                execute io self context tr =
                  (Inl e, context, h @ [lookup, load, build, create])))"
proof -
  let ?t1 = "tr @ [print_event self context]"
  have res: "resolve_analyzer io cfg i ?t1 = provision io cfg i h"
    using missing
    by (simp add: existence_check_def resolve_analyzer_HTTPError cfg_def i_def h_def)
  have stop: "execute io self context tr = (Inl e, context, t2)"
    if "provision io cfg i h = (Inl e, t2)" for t2
    using that res by (simp add: execute_resolution_raises cfg_def i_def)
  have 1: "execute io self context tr = (Inl e, context, h @ [lookup])"
    if "fetched = Inl e"
    using that by (intro stop) (simp add: provision_lookup_raises fetched_def lookup_def)
  have 2: "execute io self context tr = (Inl e, context, h @ [lookup, load])"
    if "fetched = Inr selected_schema \<and> loaded = Inl e"
    using that
    by (intro stop) (simp add: provision_load_raises fetched_def loaded_def lookup_def load_def)
  have 3: "execute io self context tr = (Inl e, context, h @ [lookup, load, build])"
    if "fetched = Inr selected_schema \<and> loaded = Inr schema_model \<and> built = Inl e"
    using that
    by (intro stop)
       (simp add: provision_build_raises fetched_def loaded_def built_def lookup_def load_def
          build_def)
  have 4: "(\<exists>rest. snd (snd (execute io self context tr)) =
                      h @ [lookup, load, build, create] @ rest
                  \<and> \<not> list_ex provisioning_event rest)
          \<and> (created = Inl e \<longrightarrow>
                execute io self context tr =
                  (Inl e, context, h @ [lookup, load, build, create]))"
    if all: "fetched = Inr selected_schema \<and> loaded = Inr schema_model \<and> built = Inr cu_schema"
  proof -
    have prov: "provision io cfg i h = (created, h @ [lookup, load, build, create])"
      using all
      by (simp add: provision_create fetched_def loaded_def built_def created_def lookup_def
            load_def build_def create_def)
    then have "snd (resolve_analyzer io cfg i ?t1) = h @ [lookup, load, build, create]"
      using res by simp
    with execute_after_resolution [of io self "context" tr]
    have "\<exists>rest. snd (snd (execute io self context tr)) =
                      h @ [lookup, load, build, create] @ rest
                  \<and> \<not> list_ex provisioning_event rest"
      by (auto simp: cfg_def i_def)
    moreover have "execute io self context tr =
        (Inl e, context, h @ [lookup, load, build, create])" if "created = Inl e"
      using that prov by (intro stop) simp
    ultimately show ?thesis by blast
  qed
  from 1 2 3 4 show ?thesis by blast
qed

theorem missing_analyzer_witness:
  "existence_check example_service example_handler example_context [] = Inl (HTTPError 404)
   \<and> provisioning_events =
       [GetSchema ''AccountEndpoint=https://db.example;'' ''cps'' ''Schemas'' ''inv-2025'',
        LoadSchemaFromBlob ''https://store.example/blob'' ''cps-configuration/Schemas/inv-2025''
          ''invoice.py'' ''Invoice'',
        BuildContentUnderstandingSchema ''class Invoice'',
        BeginCreateAnalyzer ''https://cu.example'' ''inv-2025'' ''template'']
   \<and> (\<exists>rest.
          snd (snd (execute example_service example_handler example_context [])) =
            [Print None, check_event] @ provisioning_events @ rest
        \<and> \<not> list_ex provisioning_event rest)
   \<and> existence_check loader_down example_handler example_context [] = Inl (HTTPError 404)
   \<and> execute loader_down example_handler example_context [] =
       (Inl (OtherException ''ResourceNotFoundError''), example_context,
        [Print None, check_event,
         GetSchema ''AccountEndpoint=https://db.example;'' ''cps'' ''Schemas'' ''inv-2025'',
         LoadSchemaFromBlob ''https://store.example/blob'' ''cps-configuration/Schemas/inv-2025''
           ''invoice.py'' ''Invoice''])"
proof -
  have missing: "existence_check example_service example_handler example_context []
                   = Inl (HTTPError 404)"
    by (simp add: step_defs example_defs)
  from missing_analyzer_provisioned_in_order
    [where io = example_service and self = example_handler
       and tr = "[]" and selected_schema = "\<lparr>FileName = ''invoice.py'', ClassName = ''Invoice''\<rparr>"
       and schema_model = "''class Invoice''" and cu_schema = "''template''", OF missing]
  have complete: "\<exists>rest.
          snd (snd (execute example_service example_handler example_context [])) =
            [Print None, check_event] @ provisioning_events @ rest
        \<and> \<not> list_ex provisioning_event rest"
    by (simp add: example_defs get_previous_step_result_def)
  have missing': "existence_check loader_down example_handler example_context []
                    = Inl (HTTPError 404)"
    by (simp add: step_defs example_defs)
  from missing_analyzer_provisioned_in_order
    [where io = loader_down and self = example_handler
       and tr = "[]" and selected_schema = "\<lparr>FileName = ''invoice.py'', ClassName = ''Invoice''\<rparr>"
       and e = "OtherException ''ResourceNotFoundError''", OF missing']
  have stopped: "execute loader_down example_handler example_context [] =
       (Inl (OtherException ''ResourceNotFoundError''), example_context,
        [Print None, check_event,
         GetSchema ''AccountEndpoint=https://db.example;'' ''cps'' ''Schemas'' ''inv-2025'',
         LoadSchemaFromBlob ''https://store.example/blob'' ''cps-configuration/Schemas/inv-2025''
           ''invoice.py'' ''Invoice''])"
    by (simp add: example_defs get_previous_step_result_def)
  from missing complete missing' stopped show ?thesis
    by (simp add: provisioning_events_def)
qed

text \<open>
  C5. When polling raises (the terminal failure of the analysis job, which the
  analysis client reports as an exception), the step fails with that very exception,
  the context and with it the \<open>files\<close> sequence is unchanged, and the execution's
  events end with the poll: the analyzer's resolution, the download, the submission
  and the poll, with no \<open>AddFile\<close> and no upload.
\<close>

theorem failed_analysis_creates_no_artifact:
  fixes io self "context" tr f file_stream
  defines "cfg \<equiv> cfg_of self"
    and "i \<equiv> analyzer_id_of context"
  defines "download \<equiv> DownloadStream f (app_storage_blob_url cfg) (app_cps_processes cfg)"
    and "submit \<equiv> BeginAnalyzeStream (app_content_understanding_endpoint cfg) i file_stream"
  assumes resolved: "resolve_analyzer io cfg i (tr @ [print_event self context]) = (Inr (), h)"
    and source: "get_source_files (data_pipeline context) = f # fs"
    and downloaded: "download_stream io h f (app_storage_blob_url cfg) (app_cps_processes cfg)
                       = Inr file_stream"
    and submitted: "begin_analyze_stream io (h @ [download])
                      (app_content_understanding_endpoint cfg) i file_stream = Inr response"
    and failed: "poll_result io (h @ [download, submit])
                   (app_content_understanding_endpoint cfg) response = Inl e"
  shows "execute io self context tr =
           (Inl e, context,
            h @ [download, submit, PollResult (app_content_understanding_endpoint cfg) response])
         \<and> (\<exists>prov. h = tr @ print_event self context # check_event_of self context # prov
                   \<and> list_all provisioning_event prov)"
proof -
  have "analyze io cfg (data_pipeline context) i h =
      (Inl e, h @ [download, submit,
                   PollResult (app_content_understanding_endpoint cfg) response])"
    using source downloaded submitted failed
    unfolding download_def submit_def by (rule analyze_poll_raises)
  with resolved have "execute io self context tr =
      (Inl e, context,
       h @ [download, submit, PollResult (app_content_understanding_endpoint cfg) response])"
    by (simp add: execute_unfold cfg_def i_def)
  moreover have "\<exists>prov. h = tr @ print_event self context # check_event_of self context # prov
                   \<and> list_all provisioning_event prov"
    using resolve_analyzer_history [of io cfg i "tr @ [print_event self context]"] resolved
    by (auto simp: cfg_def i_def)
  ultimately show ?thesis by blast
qed

theorem failed_analysis_witness:
  "resolve_analyzer failing_analysis (cfg_of example_handler) (analyzer_id_of example_context)
      [print_event example_handler example_context]
     = (Inr (), Print None # check_event # provisioning_events)
   \<and> poll_result failing_analysis
        (Print None # check_event # provisioning_events @ butlast analysis_events)
        ''https://cu.example'' ''job-1'' = Inl (OtherException ''RuntimeError'')
   \<and> execute failing_analysis example_handler example_context [] =
       (Inl (OtherException ''RuntimeError''), example_context,
        Print None # check_event # provisioning_events @ analysis_events)
   \<and> files (data_pipeline example_context) = []"
proof -
  have resolved: "resolve_analyzer failing_analysis (cfg_of example_handler)
      (analyzer_id_of example_context) ([] @ [print_event example_handler example_context])
     = (Inr (), Print None # check_event # provisioning_events)"
    by (simp add: step_defs example_defs)
  have source: "get_source_files (data_pipeline example_context) =
      \<lparr>location = ''p-1'', file_name = ''invoice.pdf''\<rparr> # []"
    by (simp add: get_source_files_def example_defs)
  from failed_analysis_creates_no_artifact
    [OF resolved source, of "''%PDF''" "''job-1''" "OtherException ''RuntimeError''"]
  have "execute failing_analysis example_handler example_context [] =
       (Inl (OtherException ''RuntimeError''), example_context,
        Print None # check_event # provisioning_events @ analysis_events)"
    by (simp add: example_defs)
  moreover have "poll_result failing_analysis
        (Print None # check_event # provisioning_events @ butlast analysis_events)
        ''https://cu.example'' ''job-1'' = Inl (OtherException ''RuntimeError'')"
    by (simp add: example_defs)
  ultimately show ?thesis
    using resolved by (simp add: example_defs)
qed

section \<open>What a successful execution returns and leaves\<close>

text \<open>
  C6. The result of a successful execution carries the process id of the context it was
  run on, copied as it is; the execution does not change the context's pipeline status,
  so this is also the process id of the context afterwards.
\<close>

theorem step_result_carries_process_id:
  assumes "execute io self context tr = (Inr r, context', tr')"
  shows "StepResult.process_id r = PipelineStatus.process_id (pipeline_status (data_pipeline context))
         \<and> pipeline_status (data_pipeline context') = pipeline_status (data_pipeline context)"
proof -
  obtain analyzed t3 where "save_result io self context analyzed t3 = (Inr r, context', tr')"
    using execute_success [OF assms] by blast
  from save_result_success(1,2) [OF this] show ?thesis by simp
qed

theorem step_result_process_id_witness:
  "execute example_service example_handler example_context [] =
     (Inr example_result, example_context_after, example_history)
   \<and> StepResult.process_id example_result = ''p-1''
   \<and> PipelineStatus.process_id (pipeline_status (data_pipeline example_context)) = ''p-1''
   \<and> pipeline_status (data_pipeline example_context_after)
       = pipeline_status (data_pipeline example_context)"
  using step_result_carries_process_id [OF example_run] example_run
  by (simp add: example_defs)

text \<open>
  C7, as stated: the payload of a successful execution is the mapping with the keys
  \<open>status\<close> and \<open>file_name\<close>. The concrete run's payload has no key \<open>status\<close>: the
  outcome is stored under the key \<open>result\<close>.
\<close>

theorem step_result_payload_counterexample:
  "execute example_service example_handler example_context [] =
     (Inr example_result, example_context_after, example_history)
   \<and> result example_result ''status'' = None
   \<and> result example_result ''result'' = Some ''success''
   \<and> result example_result \<noteq>
       [''status'' \<mapsto> ''success'', ''file_name'' \<mapsto> ''content_understanding_output.json'']"
proof -
  have "result example_result ''status'' = None"
    by (simp add: example_result_def)
  moreover have "result example_result ''result'' = Some ''success''"
    by (simp add: example_result_def)
  moreover have
    "[''status'' \<mapsto> ''success'', ''file_name'' \<mapsto> ''content_understanding_output.json'']
       ''status'' = Some ''success''"
    by simp
  ultimately show ?thesis
    using example_run by (metis option.distinct(1))
qed

text \<open>
  C7, amended: the payload of a successful execution is the mapping of exactly two
  keys, \<open>result\<close> to \<open>success\<close> and \<open>file_name\<close> to the name of the artifact the
  execution has created, the last of the context's files.
\<close>

theorem step_result_payload:
  assumes "execute io self context tr = (Inr r, context', tr')"
  shows "result r = [''result'' \<mapsto> ''success'',
                     ''file_name'' \<mapsto> name (last (files (data_pipeline context')))]
         \<and> dom (result r) = {''result'', ''file_name''}"
proof -
  obtain analyzed t3 where "save_result io self context analyzed t3 = (Inr r, context', tr')"
    using execute_success [OF assms] by blast
  from save_result_success(1,2) [OF this] show ?thesis by auto
qed

theorem step_result_payload_witness:
  "execute example_service example_handler example_context [] =
     (Inr example_result, example_context_after, example_history)
   \<and> result example_result =
       [''result'' \<mapsto> ''success'',
        ''file_name'' \<mapsto> name (last (files (data_pipeline example_context_after)))]
   \<and> name (last (files (data_pipeline example_context_after)))
       = ''content_understanding_output.json''
   \<and> dom (result example_result) = {''result'', ''file_name''}"
proof -
  have "name (last (files (data_pipeline example_context_after)))
          = ''content_understanding_output.json''"
    by (simp add: example_defs)
  with step_result_payload [OF example_run] example_run show ?thesis by auto
qed

text \<open>
  C8. In a successful execution the last event is the upload, and the artifact it
  uploads is named \<^verbatim>\<open>content_understanding_output.json\<close>, has the type
  \<open>ExtractedContent\<close> and carries exactly one log entry, whose source is the handler's
  name. The same artifact is the last of the context's files afterwards.
\<close>

theorem output_artifact_at_upload:
  assumes "execute io self context tr = (Inr r, context', tr')"
  shows "\<exists>a account_url container_name text.
           last tr' = UploadJsonText a account_url container_name text
         \<and> last (files (data_pipeline context')) = a
         \<and> name a = ''content_understanding_output.json''
         \<and> artifact_type a = ExtractedContent
         \<and> length (log_entries a) = 1
         \<and> log_entries a =
             [\<lparr>source = handler_name self,
               message = ''Content Understanding Extraction Result has been added''\<rparr>]"
proof -
  obtain analyzed t3 where "save_result io self context analyzed t3 = (Inr r, context', tr')"
    using execute_success [OF assms] by blast
  from save_result_success(2,3) [OF this] show ?thesis by simp
qed

theorem output_artifact_witness:
  "execute example_service example_handler example_context [] =
     (Inr example_result, example_context_after, example_history)
   \<and> last example_history =
       UploadJsonText output_file ''https://store.example/blob'' ''cps-processes''
         ''{status: Succeeded}''
   \<and> last (files (data_pipeline example_context_after)) = output_file
   \<and> name output_file = ''content_understanding_output.json''
   \<and> artifact_type output_file = ExtractedContent
   \<and> length (log_entries output_file) = 1
   \<and> map source (log_entries output_file) = [handler_name example_handler]"
proof -
  have "last example_history =
       UploadJsonText output_file ''https://store.example/blob'' ''cps-processes''
         ''{status: Succeeded}''"
    by (simp add: example_defs)
  moreover have "last (files (data_pipeline example_context_after)) = output_file"
    by (simp add: example_defs)
  ultimately show ?thesis
    using output_artifact_at_upload [OF example_run] example_run
    by (auto simp: example_handler_def)
qed

text \<open>
  C9. A successful execution changes the context in one place: one artifact is
  appended to \<open>files\<close>. The files that were there are all kept, unchanged and in
  their order, and the source files, the step results and the pipeline status are as
  before.
\<close>

theorem execute_appends_one_artifact:
  assumes "execute io self context tr = (Inr r, context', tr')"
  shows "\<exists>a. context' = context\<lparr>data_pipeline :=
                  (data_pipeline context)\<lparr>files := files (data_pipeline context) @ [a]\<rparr>\<rparr>
         \<and> files (data_pipeline context') = files (data_pipeline context) @ [a]
         \<and> source_files (data_pipeline context') = source_files (data_pipeline context)
         \<and> step_results (data_pipeline context') = step_results (data_pipeline context)
         \<and> pipeline_status (data_pipeline context') = pipeline_status (data_pipeline context)"
proof -
  obtain analyzed t3 where "save_result io self context analyzed t3 = (Inr r, context', tr')"
    using execute_success [OF assms] by blast
  from save_result_success(2) [OF this] show ?thesis by simp
qed

theorem execute_appends_one_artifact_witness:
  "execute example_service example_handler example_context_after example_history =
     (Inr example_result,
      example_context\<lparr>data_pipeline :=
        (data_pipeline example_context)\<lparr>files := [output_file, output_file]\<rparr>\<rparr>,
      example_history @ Print None # check_event # analysis_events @ saving_events)
   \<and> files (data_pipeline example_context_after) = [output_file]
   \<and> (\<exists>a. files (data_pipeline (example_context\<lparr>data_pipeline :=
               (data_pipeline example_context)\<lparr>files := [output_file, output_file]\<rparr>\<rparr>))
            = files (data_pipeline example_context_after) @ [a])
   \<and> source_files (data_pipeline (example_context\<lparr>data_pipeline :=
               (data_pipeline example_context)\<lparr>files := [output_file, output_file]\<rparr>\<rparr>))
       = source_files (data_pipeline example_context_after)"
proof -
  have "files (data_pipeline example_context_after) = [output_file]"
    by (simp add: example_defs)
  with execute_appends_one_artifact [OF example_second_run] example_second_run
  show ?thesis by auto
qed

section \<open>The settings singleton\<close>

lemma get_app_config_stored:
  "app_config s = Some c \<Longrightarrow> get_app_config h s = (Inr c, s)"
  by (simp add: get_app_config_def)

lemma get_app_config_returned:
  "get_app_config h s = (Inr c, s') \<Longrightarrow> app_config s' = Some c"
  by (auto simp: get_app_config_def Let_def split: option.splits sum.splits if_splits)

lemma get_app_config_times_stored:
  "app_config s = Some c \<Longrightarrow> get_app_config_times h n s = (replicate n (Inr c), s)"
  by (induction n) (simp_all add: get_app_config_stored)

text \<open>
  While nothing is stored, nothing has been constructed and logging is unconfigured;
  once a reference is stored, it is the only object there is.
\<close>

lemma get_app_config_invariant:
  assumes "get_app_config h s = (r, s')"
    and "case app_config s of
           None \<Rightarrow> objects s = [] \<and> logging_calls s = []
         | Some c \<Rightarrow> c = 0 \<and> length (objects s) = 1 \<and> length (logging_calls s) \<le> 1"
  shows "case app_config s' of
           None \<Rightarrow> objects s' = [] \<and> logging_calls s' = []
         | Some c \<Rightarrow> c = 0 \<and> length (objects s') = 1 \<and> length (logging_calls s') \<le> 1"
  using assms
  by (auto simp: get_app_config_def Let_def split: option.splits sum.splits if_splits)

lemma get_app_config_times_invariant:
  assumes "get_app_config_times h n s = (rs, s')"
    and "case app_config s of
           None \<Rightarrow> objects s = [] \<and> logging_calls s = []
         | Some c \<Rightarrow> c = 0 \<and> length (objects s) = 1 \<and> length (logging_calls s) \<le> 1"
  shows "case app_config s' of
           None \<Rightarrow> objects s' = [] \<and> logging_calls s' = []
         | Some c \<Rightarrow> c = 0 \<and> length (objects s') = 1 \<and> length (logging_calls s') \<le> 1"
  using assms
proof (induction n arbitrary: s rs s')
  case 0
  then show ?case by auto
next
  case (Suc n)
  obtain r s1 where first: "get_app_config h s = (r, s1)"
    by (cases "get_app_config h s")
  obtain rs' s2 where rest: "get_app_config_times h n s1 = (rs', s2)"
    by (cases "get_app_config_times h n s1")
  from Suc.prems(1) first rest have last: "s' = s2" by simp
  from Suc.IH [OF rest get_app_config_invariant [OF first Suc.prems(2)]]
  show ?case unfolding last .
qed

lemma get_app_config_times_returned:
  assumes "get_app_config_times h n s = (rs, s')" and "Inr c \<in> set rs"
  shows "app_config s' = Some c"
  using assms
proof (induction n arbitrary: s rs s')
  case 0
  then show ?case by simp
next
  case (Suc n)
  obtain r s1 where first: "get_app_config h s = (r, s1)"
    by (cases "get_app_config h s")
  obtain rs' s2 where rest: "get_app_config_times h n s1 = (rs', s2)"
    by (cases "get_app_config_times h n s1")
  from Suc.prems(1) first rest have eq: "rs = r # rs'" "s' = s2" by auto
  show ?case
  proof (cases "r = Inr c")
    case True
    with first have "app_config s1 = Some c" by (simp add: get_app_config_returned)
    with rest eq show ?thesis by (simp add: get_app_config_times_stored)
  next
    case False
    with Suc.prems(2) eq have "Inr c \<in> set rs'" by simp
    with Suc.IH [OF rest] eq show ?thesis by simp
  qed
qed

text \<open>
  With logging enabled under a level name the logging module does not define, the first
  call raises after it has stored the new object; the second call returns that object,
  and logging is never configured.
\<close>

lemma misnamed_level_run:
  "get_app_config_times misnamed_level_host (Suc (Suc 0)) initial_state =
     ([Inl (AttributeError ''VERBOSE''), Inr 0],
      \<lparr>app_config = Some 0,
       objects = [example_settings\<lparr>app_logging_level := ''VERBOSE''\<rparr>],
       constructor_calls = 1, logging_calls = []\<rparr>)"
  by (simp add: get_app_config_def misnamed_level_host_def example_settings_def
        example_logging_getattr_def initial_state_def)

text \<open>
  C10, as stated: in every sequence of calls the configuration is constructed at most once, on
  the first call, and every call returns the same object. In a process whose environment
  lacks the required settings the constructor raises: neither of two calls returns an
  object, nothing is stored, and the constructor has been invoked by both.
\<close>

theorem get_app_config_counterexample:
  "get_app_config_times unconfigured_host (Suc (Suc 0)) initial_state =
     ([Inl ValidationError, Inl ValidationError],
      \<lparr>app_config = None, objects = [], constructor_calls = 2, logging_calls = []\<rparr>)"
  by (simp add: get_app_config_def unconfigured_host_def initial_state_def)

text \<open>
  C10, amended: in every sequence of calls made from the module's initial state, at most one
  configuration object is ever constructed and logging is configured at most once; every
  call that returns gives the reference the module has stored, hence the same object, which
  has been constructed by then; and from the state such a sequence ends in, any number of
  further calls return that reference and change nothing (no construction, no logging
  call). A call made while nothing is stored raises when the constructor raises: nothing
  is stored then, and the next call invokes the constructor again.
\<close>

theorem get_app_config_constructs_once:
  assumes "get_app_config_times h n initial_state = (rs, s)"
  shows "length (objects s) \<le> 1
         \<and> length (logging_calls s) \<le> 1
         \<and> (\<forall>c. Inr c \<in> set rs \<longrightarrow>
               app_config s = Some c \<and> length (objects s) = 1
             \<and> get_app_config_times h m s = (replicate m (Inr c), s))
         \<and> (\<forall>e. app_config s = None \<and> settings h (constructor_calls s) = Inl e \<longrightarrow>
               get_app_config h s = (Inl e, s\<lparr>constructor_calls := Suc (constructor_calls s)\<rparr>))"
proof -
  have "case app_config initial_state of
          None \<Rightarrow> objects initial_state = [] \<and> logging_calls initial_state = []
        | Some c \<Rightarrow> c = 0 \<and> length (objects initial_state) = 1
            \<and> length (logging_calls initial_state) \<le> 1"
    by (simp add: initial_state_def)
  from get_app_config_times_invariant [OF assms this]
  have inv: "case app_config s of
          None \<Rightarrow> objects s = [] \<and> logging_calls s = []
        | Some c \<Rightarrow> c = 0 \<and> length (objects s) = 1 \<and> length (logging_calls s) \<le> 1" .
  then have "length (objects s) \<le> 1" "length (logging_calls s) \<le> 1"
    by (auto split: option.splits)
  moreover have "app_config s = Some c \<and> length (objects s) = 1
      \<and> get_app_config_times h m s = (replicate m (Inr c), s)" if "Inr c \<in> set rs" for c
  proof -
    from get_app_config_times_returned [OF assms that] have "app_config s = Some c" .
    with inv show ?thesis by (simp add: get_app_config_times_stored)
  qed
  moreover have "get_app_config h s = (Inl e, s\<lparr>constructor_calls := Suc (constructor_calls s)\<rparr>)"
    if "app_config s = None \<and> settings h (constructor_calls s) = Inl e" for e
    using that by (simp add: get_app_config_def)
  ultimately show ?thesis by blast
qed

theorem get_app_config_witness:
  "get_app_config_times example_host (Suc (Suc 0)) initial_state =
     ([Inr 0, Inr 0],
      \<lparr>app_config = Some 0, objects = [example_settings], constructor_calls = 1,
       logging_calls = [BasicConfig 20]\<rparr>)
   \<and> get_app_config_times example_host (Suc 0)
        \<lparr>app_config = Some 0, objects = [example_settings], constructor_calls = 1,
         logging_calls = [BasicConfig 20]\<rparr> =
       (replicate (Suc 0) (Inr 0),
        \<lparr>app_config = Some 0, objects = [example_settings], constructor_calls = 1,
         logging_calls = [BasicConfig 20]\<rparr>)"
proof -
  have run: "get_app_config_times example_host (Suc (Suc 0)) initial_state =
     ([Inr 0, Inr 0],
      \<lparr>app_config = Some 0, objects = [example_settings], constructor_calls = 1,
       logging_calls = [BasicConfig 20]\<rparr>)"
    by (simp add: get_app_config_def example_host_def example_settings_def
          example_logging_getattr_def initial_state_def)
  from get_app_config_constructs_once [OF run, of "Suc 0"] run
  show ?thesis by simp
qed

end
